theory Spec2Isabelle
  imports Main "HOL-Library.AList"
begin

section \<open>Data model\<close>

text \<open>
  Entity identifiers are Python integers. A \<open>Position\<close> is the frozen dataclass
  with the integer fields \<open>x\<close> and \<open>y\<close> read by \<open>push.py\<close>; its fields are named
  \<open>pos_x\<close> and \<open>pos_y\<close> here so that they do not capture the variables \<open>x\<close> and \<open>y\<close>.
  A \<open>Portal\<close> component carries the field \<open>pair_entity\<close> read by \<open>portal.py\<close>.
\<close>

type_synonym entity_id = int

datatype position = Position (pos_x: int) (pos_y: int)

datatype portal = Portal (pair_entity: entity_id)

text \<open>
  The movement and objective rules are functions compared by identity
  (\<open>state.move_fn is wrap_around_move_fn\<close>). The registries that list them are not
  part of the sources read here, so a rule is one of the two names the sources import
  or some other registered name.
\<close>

datatype move_fn = default_move_fn | wrap_around_move_fn | registered_move_fn string

datatype objective_fn = default_objective_fn | registered_objective_fn string

datatype error = ZeroDivisionError | ValueError | IndexError

text \<open>
  A persistent map (\<open>PMap\<close>) from entity ids to component values is an association
  list: \<open>m.get(k)\<close> is \<open>map_of m k\<close>, \<open>m.set(k, v)\<close> is \<open>AList.update k v m\<close>, and
  iterating over \<open>m\<close> walks its keys \<open>map fst m\<close>. A store whose component carries no
  data (a tag such as \<open>Pushable\<close>) is the list of its keys.
\<close>

type_synonym 'v store = "(entity_id \<times> 'v) list"

type_synonym tag_store = "entity_id list"

text \<open>
  Modelled from the spec: the declaration of \<open>State\<close> (not among the sources). It is
  the immutable snapshot of section 3 of the specification: grid dimensions, the active
  rules, one store per component kind, a seed, and the bookkeeping of previous positions
  and per-entity trails. The fields the systems read are \<open>width\<close>, \<open>height\<close>,
  \<open>move_fn\<close>, \<open>position\<close>, \<open>pushable\<close>, \<open>collidable\<close>, \<open>blocking\<close>, \<open>portal\<close>,
  \<open>prev_position\<close>, \<open>trail\<close> and \<open>agent\<close>; every further field of the
  dataclass lives in the record's extension, which the functions below carry along
  untouched.
\<close>

record state =
  width :: int
  height :: int
  move_fn :: move_fn
  objective_fn :: objective_fn
  position :: "position store"
  agent :: tag_store
  pushable :: tag_store
  collidable :: tag_store
  blocking :: tag_store
  health :: "int store"
  portal :: "portal store"
  status :: "entity_id list store"
  prev_position :: "position store"
  trail :: "position list store"
  seed :: "int option"

text \<open>
  The augmented trail handed to \<open>portal_system_entity\<close> is a
  \<open>PMap[Position, PSet[EntityID]]\<close> of which only \<open>.get\<close> is used: a partial
  function from cells to a listing of the entity set.
\<close>

type_synonym augmented_trail = "position \<rightharpoonup> entity_id list"

section \<open>Grid and entity utilities\<close>

text \<open>
  Modelled from the spec: \<open>is_in_bounds\<close> of \<open>grid_universe.utils.grid\<close> (not among
  the sources). A position is inside the grid when it lies in
  \<open>[0, width) \<times> [0, height)\<close>.
\<close>

definition is_in_bounds :: "'a state_scheme \<Rightarrow> position \<Rightarrow> bool" where
  "is_in_bounds state pos =
     (0 \<le> pos_x pos \<and> pos_x pos < width state \<and> 0 \<le> pos_y pos \<and> pos_y pos < height state)"

text \<open>
  Modelled from the spec: \<open>wrap_position\<close> of \<open>grid_universe.utils.grid\<close> (not among
  the sources). Under the wrap rule positions are taken modulo width and height.
  Python's \<open>%\<close> is the floored modulus, as \<open>mod\<close> on \<open>int\<close> is, and it raises
  \<open>ZeroDivisionError\<close> for a zero modulus.
\<close>

definition wrap_position :: "int \<Rightarrow> int \<Rightarrow> int \<Rightarrow> int \<Rightarrow> error + position" where
  "wrap_position x y w h =
     (if w = 0 \<or> h = 0 then Inl ZeroDivisionError else Inr (Position (x mod w) (y mod h)))"

text \<open>
  Modelled from the spec: \<open>entities_at\<close> of \<open>grid_universe.utils.ecs\<close> (not among the
  sources). It lists the entities of the position store whose position is the given cell.
\<close>

definition entities_at :: "'a state_scheme \<Rightarrow> position \<Rightarrow> entity_id list" where
  "entities_at state pos =
     filter (\<lambda>eid. map_of (position state) eid = Some pos) (map fst (position state))"

text \<open>
  Modelled from the spec: \<open>entities_with_components_at\<close> of
  \<open>grid_universe.utils.ecs\<close> (not among the sources). It lists the entities whose
  position is the given cell and which are members of the given component store
  (``all pushable entities at \<open>target_cell\<close>'').
\<close>

definition entities_with_components_at ::
  "'a state_scheme \<Rightarrow> position \<Rightarrow> tag_store \<Rightarrow> entity_id list" where
  "entities_with_components_at state pos store =
     filter (\<lambda>eid. eid \<in> set store) (entities_at state pos)"

text \<open>
  Modelled from the spec: \<open>is_blocked_at\<close> of \<open>grid_universe.utils.grid\<close> (not among
  the sources). A cell is blocked when it is occupied by a \<open>Blocking\<close> entity, or,
  when \<open>check_collidable\<close> is set (as the push system sets it), by a \<open>Collidable\<close>
  one.
\<close>

definition is_blocked_at :: "'a state_scheme \<Rightarrow> position \<Rightarrow> bool \<Rightarrow> bool" where
  "is_blocked_at state pos check_collidable =
     (\<exists>eid \<in> set (entities_at state pos).
        eid \<in> set (blocking state) \<or> (check_collidable \<and> eid \<in> set (collidable state)))"

text \<open>
  Modelled from the spec: \<open>add_trail_position\<close> of \<open>grid_universe.utils.trail\<close> (not
  among the sources). The state is an immutable value, so extending an entity's trail by
  a cell yields a new state and leaves the argument as it was.
\<close>

definition add_trail_position ::
  "'a state_scheme \<Rightarrow> entity_id \<Rightarrow> position \<Rightarrow> 'a state_scheme" where
  "add_trail_position state entity_id new_pos =
     state\<lparr>trail :=
       AList.update entity_id
         ((case map_of (trail state) entity_id of None \<Rightarrow> [] | Some cells \<Rightarrow> cells) @ [new_pos])
         (trail state)\<rparr>"

text \<open>
  Modelled from the spec: \<open>get_augmented_trail\<close> of \<open>grid_universe.utils.trail\<close> (not
  among the sources). For each cell it gives the entities, among those asked for, that
  rest on the cell or passed through it during the step; a cell nobody touched has no
  entry.
\<close>

definition get_augmented_trail :: "'a state_scheme \<Rightarrow> entity_id list \<Rightarrow> augmented_trail" where
  "get_augmented_trail state entity_ids =
     (\<lambda>cell.
        let eids = filter (\<lambda>eid. map_of (position state) eid = Some cell
                       \<or> (case map_of (trail state) eid of None \<Rightarrow> False
                            | Some cells \<Rightarrow> cell \<in> set cells)) entity_ids
        in if eids = [] then None else Some eids)"

section \<open>Push system (\<open>grid_universe/systems/push.py\<close>)\<close>

definition compute_destination ::
  "'a state_scheme \<Rightarrow> position \<Rightarrow> position \<Rightarrow> error + position option" where
  "compute_destination state current_pos next_pos =
     (let dx = pos_x next_pos - pos_x current_pos;
          dy = pos_y next_pos - pos_y current_pos;
          dest_x = pos_x next_pos + dx;
          dest_y = pos_y next_pos + dy
      in if move_fn state = wrap_around_move_fn then
           (case wrap_position dest_x dest_y (width state) (height state) of
              Inl err \<Rightarrow> Inl err
            | Inr wrapped \<Rightarrow> Inr (Some wrapped))
         else
           (let target_position = Position dest_x dest_y
            in if \<not> is_in_bounds state target_position then Inr None
               else Inr (Some target_position)))"

text \<open>
  The loop of \<open>push_system\<close> over \<open>pushable_ids\<close>. Each round stores the destination
  for one pushable entity in \<open>new_position\<close> and calls \<open>add_trail_position\<close>, whose
  result the source does not bind to anything.
\<close>

fun push_loop ::
  "'a state_scheme \<Rightarrow> position \<Rightarrow> entity_id list \<Rightarrow> position store \<Rightarrow> position store" where
  "push_loop state push_to [] new_position = new_position"
| "push_loop state push_to (pushable_id # rest) new_position =
     (let new_position' = AList.update pushable_id push_to new_position;
          discarded = add_trail_position state pushable_id push_to
      in push_loop state push_to rest new_position')"

text \<open>
  \<open>push_system\<close>. The assignment \<open>pushable_id = pushable_ids[0]\<close> of the source is
  reached only with a non-empty list and its value is never read, so it has no branch
  here. The only operation that can raise is the modulus inside \<open>wrap_position\<close>.
\<close>

definition push_system ::
  "'a state_scheme \<Rightarrow> entity_id \<Rightarrow> position \<Rightarrow> error + 'a state_scheme" where
  "push_system state eid next_pos =
     (case map_of (position state) eid of
        None \<Rightarrow> Inr state
      | Some current_pos \<Rightarrow>
          (let pushable_ids = entities_with_components_at state next_pos (pushable state)
           in if pushable_ids = [] then Inr state
              else
                (case compute_destination state current_pos next_pos of
                   Inl err \<Rightarrow> Inl err
                 | Inr None \<Rightarrow> Inr state
                 | Inr (Some push_to) \<Rightarrow>
                     if is_blocked_at state push_to True then Inr state
                     else
                       (let new_position = AList.update eid next_pos (position state)
                        in Inr (state\<lparr>position :=
                                  push_loop state push_to pushable_ids new_position\<rparr>)))))"

section \<open>Portal system (\<open>grid_universe/systems/portal.py\<close>)\<close>

text \<open>The loop of \<open>portal_system_entity\<close> over the entering entities.\<close>

fun teleport_loop :: "position \<Rightarrow> entity_id list \<Rightarrow> position store \<Rightarrow> position store" where
  "teleport_loop pair_position [] state_position = state_position"
| "teleport_loop pair_position (eid # rest) state_position =
     teleport_loop pair_position rest (AList.update eid pair_position state_position)"

text \<open>
  The entities \<open>portal_system_entity\<close> teleports: those listed in the augmented trail
  at the portal's cell, tagged collidable, whose previous position differs from the
  current one.
\<close>

definition entering_entity_ids ::
  "'a state_scheme \<Rightarrow> augmented_trail \<Rightarrow> position \<Rightarrow> entity_id list" where
  "entering_entity_ids state augmented_trail portal_position =
     (let entity_ids =
            filter (\<lambda>eid. eid \<in> set (collidable state))
              (case augmented_trail portal_position of None \<Rightarrow> [] | Some eids \<Rightarrow> eids)
      in filter (\<lambda>eid. map_of (prev_position state) eid \<noteq> map_of (position state) eid)
           entity_ids)"

definition portal_system_entity ::
  "'a state_scheme \<Rightarrow> augmented_trail \<Rightarrow> entity_id \<Rightarrow> 'a state_scheme" where
  "portal_system_entity state augmented_trail portal_id =
     (case map_of (position state) portal_id of
        None \<Rightarrow> state
      | Some portal_position \<Rightarrow>
          (case map_of (portal state) portal_id of
             None \<Rightarrow> state
           | Some ptl \<Rightarrow>
               (case map_of (position state) (pair_entity ptl) of
                  None \<Rightarrow> state
                | Some pair_position \<Rightarrow>
                    state\<lparr>position :=
                      teleport_loop pair_position
                        (entering_entity_ids state augmented_trail portal_position)
                        (position state)\<rparr>)))"

text \<open>
  \<open>portal_system\<close> computes the augmented trail once, from the state it is given, and
  visits the keys of that state's portal store in turn.
\<close>

fun portal_loop ::
  "augmented_trail \<Rightarrow> entity_id list \<Rightarrow> 'a state_scheme \<Rightarrow> 'a state_scheme" where
  "portal_loop augmented_trail [] state = state"
| "portal_loop augmented_trail (portal_id # rest) state =
     portal_loop augmented_trail rest (portal_system_entity state augmented_trail portal_id)"

definition portal_system :: "'a state_scheme \<Rightarrow> 'a state_scheme" where
  "portal_system state =
     portal_loop (get_augmented_trail state (collidable state)) (map fst (portal state)) state"

section \<open>Example states\<close>

text \<open>
  The 3-by-1 bounded grid of the specification's scenario: agent \<open>1\<close> on cell (0,0),
  a pushable box \<open>2\<close> on cell (1,0), cell (2,0) empty.
\<close>

definition box_state :: state where
  "box_state =
     \<lparr>width = 3, height = 1, move_fn = default_move_fn, objective_fn = default_objective_fn,
      position = [(1, Position 0 0), (2, Position 1 0)],
      agent = [1], pushable = [2], collidable = [1, 2], blocking = [],
      health = [(1, 5)], portal = [], status = [],
      prev_position = [(1, Position 0 0), (2, Position 1 0)],
      trail = [], seed = None\<rparr>"

text \<open>The same grid with a wall \<open>3\<close> (\<open>Blocking\<close>) on cell (2,0).\<close>

definition wall_state :: state where
  "wall_state =
     box_state\<lparr>position := [(1, Position 0 0), (2, Position 1 0), (3, Position 2 0)],
       collidable := [1, 2, 3], blocking := [3]\<rparr>"

text \<open>
  A 4-by-1 grid with two boxes in a row, \<open>2\<close> on (1,0) and \<open>3\<close> on (2,0), and cell
  (3,0) free.
\<close>

definition chain_state :: state where
  "chain_state =
     box_state\<lparr>width := 4,
       position := [(1, Position 0 0), (2, Position 1 0), (3, Position 2 0)],
       pushable := [2, 3], collidable := [1, 2, 3], blocking := [2, 3]\<rparr>"

text \<open>
  A 5-by-1 grid with box \<open>2\<close> on (1,0), cell (2,0) free and a second box \<open>3\<close> on
  (3,0); a floor tile \<open>7\<close>, which is not pushable, shares cell (1,0) with the first
  box.
\<close>

definition gap_state :: state where
  "gap_state =
     box_state\<lparr>width := 5,
       position := [(1, Position 0 0), (2, Position 1 0), (3, Position 3 0),
                    (7, Position 1 0)],
       pushable := [2, 3], collidable := [1, 2, 3], blocking := [2, 3]\<rparr>"

text \<open>The box against the right edge, under the bounded rule and under the wrap rule.\<close>

definition edge_state :: state where
  "edge_state = box_state\<lparr>position := [(1, Position 1 0), (2, Position 2 0)]\<rparr>"

definition wrap_state :: state where
  "wrap_state = edge_state\<lparr>move_fn := wrap_around_move_fn\<rparr>"

text \<open>
  The portal scenario: portal \<open>10\<close> on (0,0) paired with portal \<open>11\<close> on (4,4). Agent
  \<open>1\<close> has just moved from (1,0) onto (0,0); entity \<open>2\<close> has been resting on (0,0);
  a wall \<open>3\<close> stands on (4,4).
\<close>

definition portal_state :: state where
  "portal_state =
     \<lparr>width = 5, height = 5, move_fn = default_move_fn, objective_fn = default_objective_fn,
      position = [(1, Position 0 0), (2, Position 0 0), (3, Position 4 4),
                  (10, Position 0 0), (11, Position 4 4)],
      agent = [1], pushable = [], collidable = [1, 2, 3], blocking = [3],
      health = [(1, 5)], portal = [(10, Portal 11), (11, Portal 10)], status = [],
      prev_position = [(1, Position 1 0), (2, Position 0 0), (3, Position 4 4),
                       (10, Position 0 0), (11, Position 4 4)],
      trail = [], seed = None\<rparr>"

text \<open>Portal \<open>10\<close> paired with an entity \<open>99\<close> that has no position; \<open>11\<close> no longer a portal.\<close>

definition dangling_state :: state where
  "dangling_state = portal_state\<lparr>portal := [(10, Portal 99)]\<rparr>"


section \<open>Level authoring (\<open>app/config/sources/editor_source.py\<close>)\<close>

text \<open>
  A palette token is the dictionary \<open>{"type": ..., "params": {...}}\<close> stored in a grid
  cell; parameter values are \<open>None\<close>, integers, booleans or strings. A token always
  carries its \<open>"type"\<close> (every token the editor writes does), and a missing or empty
  \<open>"params"\<close> entry is the empty dictionary, as \<open>token.get("params", {}) or {}\<close>
  makes it.
\<close>

datatype pyval = PyNone | PyInt int | PyBool bool | PyStr string

type_synonym params = "(string \<times> pyval) list"

record token =
  ttype :: string
  params :: params

type_synonym cell = "int \<times> int"

type_synonym grid_tokens = "token list list list"

type_synonym texture_map = "(string \<times> string) list"

record editor_config =
  cfg_width :: int
  cfg_height :: int
  cfg_move_fn :: move_fn
  cfg_objective_fn :: objective_fn
  cfg_seed :: "int option"
  cfg_render_texture_map :: texture_map
  cfg_grid_tokens :: grid_tokens

text \<open>
  The keys of \<open>PALETTE\<close>, each with whether its \<open>ToolSpec\<close> has a builder: every tool
  but the eraser has one.
\<close>

definition PALETTE :: "(string \<times> bool) list" where
  "PALETTE =
     [(''floor'', True), (''wall'', True), (''agent'', True), (''exit'', True),
      (''coin'', True), (''core'', True), (''key'', True), (''door'', True),
      (''portal'', True), (''box'', True), (''monster'', True), (''spike'', True),
      (''lava'', True), (''speed'', True), (''shield'', True), (''ghost'', True),
      (''erase'', False)]"

text \<open>\<open>_default_tool_params\<close>: the defaults merged under a token's own parameters.\<close>

definition default_tool_params :: "string \<Rightarrow> params" where
  "default_tool_params tool_key =
     (case map_of
        [(''floor'', [(''cost'', PyInt 1)]),
         (''agent'', [(''health'', PyInt 5)]),
         (''coin'', [(''reward'', PyNone)]),
         (''core'', [(''reward'', PyInt 10), (''required'', PyBool True)]),
         (''key'', [(''key_id'', PyStr ''A'')]),
         (''door'', [(''key_id'', PyStr ''A'')]),
         (''monster'',
            [(''damage'', PyInt 3), (''lethal'', PyBool False), (''moving_axis'', PyNone),
             (''moving_direction'', PyNone), (''moving_bounce'', PyBool True),
             (''moving_speed'', PyInt 1)]),
         (''box'',
            [(''pushable'', PyBool True), (''moving_axis'', PyNone),
             (''moving_direction'', PyNone), (''moving_bounce'', PyBool True),
             (''moving_speed'', PyInt 1)]),
         (''spike'', [(''damage'', PyInt 2), (''lethal'', PyBool False)]),
         (''lava'', [(''damage'', PyInt 2), (''lethal'', PyBool True)]),
         (''speed'', [(''multiplier'', PyInt 2), (''time'', PyNone), (''usage'', PyNone)]),
         (''shield'', [(''time'', PyNone), (''usage'', PyNone)]),
         (''ghost'', [(''time'', PyNone), (''usage'', PyNone)])] tool_key of
        None \<Rightarrow> []
      | Some defaults \<Rightarrow> defaults)"

text \<open>
  Modelled from the spec: the entity factories \<open>create_agent\<close>, \<open>create_portal\<close>, ...
  and the \<open>EntitySpec\<close> objects they return (not among the sources). A factory
  produces a component bundle from the tool's parameters; the bundle is kept as the tool
  key and the parameters it was built from. What is not known of the factories is a
  parameter of the model: whether a call raises, and which components, initial health
  and status a bundle holds.
\<close>

record entity_spec =
  spec_kind :: string
  spec_params :: params

text \<open>
  Modelled from the spec: what the factories do beyond building the bundle, as a
  parameter. \<open>raises t p\<close> says that the factory of tool \<open>t\<close> raises on the
  parameters \<open>p\<close>; \<open>has_component name spec\<close> says that the bundle holds the named
  component.
\<close>

record factories =
  raises :: "string \<Rightarrow> params \<Rightarrow> bool"
  has_component :: "string \<Rightarrow> entity_spec \<Rightarrow> bool"
  health_of :: "entity_spec \<Rightarrow> int option"
  status_of :: "entity_spec \<Rightarrow> entity_id list option"

text \<open>
  Modelled from the spec: \<open>Level\<close> of \<open>grid_universe.levels.grid\<close> (not among the
  sources), the authored layout that \<open>level.add((x, y), spec)\<close> fills. Objects are kept
  in the order they were added and an object's identity is its index in \<open>objects\<close>.
  The mutable attribute \<open>portal_pair_ref\<close> of the objects is a store from an object's
  identity to the identity it refers to; a portal is created unpaired, so a fresh object
  has no entry.
\<close>

record level =
  lvl_width :: int
  lvl_height :: int
  lvl_move_fn :: move_fn
  lvl_objective_fn :: objective_fn
  lvl_seed :: "int option"
  objects :: "(cell \<times> entity_spec) list"
  portal_pair_ref :: "nat \<rightharpoonup> nat"

text \<open>
  \<open>[(l[i], l[i + 1]) for i in range(0, len(l) - 1, 2)]\<close>, the pairing used by
  \<open>_pair_portals\<close> and by the fallback of \<open>_build_level_from_tokens\<close>.
\<close>

fun pair_up :: "'a list \<Rightarrow> ('a \<times> 'a) list" where
  "pair_up (a # b # rest) = (a, b) # pair_up rest"
| "pair_up rest = []"

text \<open>
  \<open>_pair_portals\<close>: the cells of the working grid that hold a portal token, in reading
  order, paired in sequence. Its result is what \<open>st.session_state\<close> holds under
  \<open>"editor_portal_pairs"\<close>.
\<close>

definition portal_cells :: "grid_tokens \<Rightarrow> cell list" where
  "portal_cells grid =
     concat (map (\<lambda>(yy, row).
        concat (map (\<lambda>(xx, cell_tokens).
           if list_ex (\<lambda>t. ttype t = ''portal'') cell_tokens then [(int xx, int yy)] else [])
          (enumerate 0 row)))
       (enumerate 0 grid))"

definition pair_portals :: "grid_tokens \<Rightarrow> (cell \<times> cell) list" where
  "pair_portals grid = pair_up (portal_cells grid)"

text \<open>
  Non-negative list indexing, \<open>IndexError\<close> past the end.
\<close>

definition py_index :: "'a list \<Rightarrow> nat \<Rightarrow> error + 'a" where
  "py_index xs i = (if i < length xs then Inr (xs ! i) else Inl IndexError)"

text \<open>
  The body of the innermost loop of \<open>_build_level_from_tokens\<close>, for one token of the
  cell \<open>(x, y)\<close>. The loop state is the list of objects added to the level and the
  dictionary \<open>portal_specs\<close> from cells to portal objects.
\<close>

type_synonym build_state = "(cell \<times> entity_spec) list \<times> (cell \<times> nat) list"

definition add_token :: "'f factories_scheme \<Rightarrow> cell \<Rightarrow> token \<Rightarrow> build_state \<Rightarrow> build_state" where
  "add_token fs c tok bs =
     (let t = ttype tok in
      if t = ''erase'' then bs
      else
        (case map_of PALETTE t of
           None \<Rightarrow> bs
         | Some has_builder \<Rightarrow>
             if \<not> has_builder then bs
             else
               (let defaults = default_tool_params t;
                    merged = AList.merge defaults (params tok);
                    built =
                      (if \<not> raises fs t merged
                         then Some \<lparr>spec_kind = t, spec_params = merged\<rparr>
                       else if \<not> raises fs t defaults
                         then Some \<lparr>spec_kind = t, spec_params = defaults\<rparr>
                       else None)
                in case built of
                     None \<Rightarrow> bs
                   | Some spec \<Rightarrow>
                       (fst bs @ [(c, spec)],
                        if t = ''portal'' then AList.update c (length (fst bs)) (snd bs)
                        else snd bs))))"

fun add_tokens :: "'f factories_scheme \<Rightarrow> cell \<Rightarrow> token list \<Rightarrow> build_state \<Rightarrow> build_state" where
  "add_tokens fs c [] bs = bs"
| "add_tokens fs c (tok # toks) bs = add_tokens fs c toks (add_token fs c tok bs)"

text \<open>
  The two outer loops, over \<open>y\<close> in \<open>range(cfg.height)\<close> and \<open>x\<close> in
  \<open>range(cfg.width)\<close>, as one pass over the cells in that order; \<open>grid_tokens[y][x]\<close>
  is read afresh for each cell.
\<close>

fun build_cells ::
  "'f factories_scheme \<Rightarrow> grid_tokens \<Rightarrow> (nat \<times> nat) list \<Rightarrow> build_state \<Rightarrow> error + build_state" where
  "build_cells fs gt [] bs = Inr bs"
| "build_cells fs gt ((y, x) # rest) bs =
     (case py_index gt y of
        Inl err \<Rightarrow> Inl err
      | Inr row \<Rightarrow>
          (case py_index row x of
             Inl err \<Rightarrow> Inl err
           | Inr cell_tokens \<Rightarrow>
               build_cells fs gt rest (add_tokens fs (int x, int y) cell_tokens bs)))"

definition grid_cells :: "int \<Rightarrow> int \<Rightarrow> (nat \<times> nat) list" where
  "grid_cells w h = concat (map (\<lambda>y. map (\<lambda>x. (y, x)) [0..<nat w]) [0..<nat h])"

text \<open>
  One round of the pairing loop. The two attribute writes cannot fail on the objects
  modelled here, so the \<open>try\<close> has no other branch.
\<close>

definition pair_step ::
  "(cell \<times> nat) list \<Rightarrow> (nat \<rightharpoonup> nat) \<Rightarrow> cell \<times> cell \<Rightarrow> (nat \<rightharpoonup> nat)" where
  "pair_step portal_specs refs pr =
     (case pr of (a_pos, b_pos) \<Rightarrow>
        (case map_of portal_specs a_pos of
           None \<Rightarrow> refs
         | Some a \<Rightarrow>
             (case map_of portal_specs b_pos of
                None \<Rightarrow> refs
              | Some b \<Rightarrow>
                  if a \<noteq> b then
                    (let refs1 = refs(a \<mapsto> b)
                     in if refs1 b = None then refs1(b \<mapsto> a) else refs1)
                  else refs)))"

text \<open>
  \<open>_build_level_from_tokens\<close>. The argument \<open>editor_portal_pairs\<close> is the entry of
  \<open>st.session_state\<close> under that key, \<open>None\<close> when the key is absent.
\<close>

definition build_level_from_tokens ::
  "'f factories_scheme \<Rightarrow> (cell \<times> cell) list option \<Rightarrow> editor_config \<Rightarrow> error + level" where
  "build_level_from_tokens fs editor_portal_pairs cfg =
     (case build_cells fs (cfg_grid_tokens cfg) (grid_cells (cfg_width cfg) (cfg_height cfg))
             ([], []) of
        Inl err \<Rightarrow> Inl err
      | Inr (objs, portal_specs) \<Rightarrow>
          (let pairs =
                 (case editor_portal_pairs of
                    Some stored \<Rightarrow> stored
                  | None \<Rightarrow> pair_up (map fst portal_specs))
           in Inr \<lparr>lvl_width = cfg_width cfg, lvl_height = cfg_height cfg,
                   lvl_move_fn = cfg_move_fn cfg, lvl_objective_fn = cfg_objective_fn cfg,
                   lvl_seed = cfg_seed cfg, objects = objs,
                   portal_pair_ref = foldl (pair_step portal_specs) Map.empty pairs\<rparr>))"

text \<open>
  Modelled from the spec: \<open>to_state\<close> of \<open>grid_universe.levels.convert\<close> (not among
  the sources). It converts the authored layout into the initial state: every object
  becomes an entity, numbered in the order of placement, standing on its cell; a
  component store lists the entities whose bundle holds the component; a portal whose
  pair reference is set gets the \<open>Portal\<close> component that names the entity of the
  referenced object, and an unpaired portal gets none (it is inert).
\<close>

definition to_state :: "'f factories_scheme \<Rightarrow> level \<Rightarrow> state" where
  "to_state fs lvl =
     (let ents = enumerate 0 (objects lvl);
          tagged = (\<lambda>name. map (\<lambda>(i, c, spec). int i)
                      (filter (\<lambda>(i, c, spec). has_component fs name spec) ents));
          positions = map (\<lambda>(i, c, spec). (int i, Position (fst c) (snd c))) ents
      in \<lparr>width = lvl_width lvl, height = lvl_height lvl, move_fn = lvl_move_fn lvl,
           objective_fn = lvl_objective_fn lvl,
           position = positions,
           agent = tagged ''agent'', pushable = tagged ''pushable'',
           collidable = tagged ''collidable'', blocking = tagged ''blocking'',
           health = concat (map (\<lambda>(i, c, spec).
                      case health_of fs spec of None \<Rightarrow> [] | Some h \<Rightarrow> [(int i, h)]) ents),
           portal = concat (map (\<lambda>(i, c, spec).
                      case portal_pair_ref lvl i of None \<Rightarrow> []
                      | Some j \<Rightarrow> [(int i, Portal (int j))]) ents),
           status = concat (map (\<lambda>(i, c, spec).
                      case status_of fs spec of None \<Rightarrow> [] | Some st \<Rightarrow> [(int i, st)]) ents),
           prev_position = positions, trail = [], seed = lvl_seed lvl\<rparr>)"

text \<open>
  Modelled from the spec: \<open>GridUniverseEnv\<close> of \<open>grid_universe.gym_env\<close> (not among
  the sources), as the record of the arguments \<open>_make_env\<close> constructs it with. The
  function \<open>initial_state_fn\<close> is kept by the state it returns.
\<close>

record grid_universe_env =
  env_render_mode :: string
  env_initial_state :: state
  env_width :: int
  env_height :: int
  env_render_texture_map :: texture_map

text \<open>
  \<open>_make_env\<close> and the \<open>_initial_state_fn\<close> it defines: the level is rebuilt and
  converted, and the environment is constructed only if the sample state has an agent.
\<close>

definition initial_state_fn ::
  "'f factories_scheme \<Rightarrow> (cell \<times> cell) list option \<Rightarrow> editor_config \<Rightarrow> error + state" where
  "initial_state_fn fs editor_portal_pairs cfg =
     (case build_level_from_tokens fs editor_portal_pairs cfg of
        Inl err \<Rightarrow> Inl err
      | Inr lvl \<Rightarrow> Inr (to_state fs lvl))"

definition make_env ::
  "'f factories_scheme \<Rightarrow> (cell \<times> cell) list option \<Rightarrow> editor_config \<Rightarrow>
     error + grid_universe_env" where
  "make_env fs editor_portal_pairs cfg =
     (case initial_state_fn fs editor_portal_pairs cfg of
        Inl err \<Rightarrow> Inl err
      | Inr sample_state \<Rightarrow>
          if agent sample_state = [] then Inl ValueError
          else Inr \<lparr>env_render_mode = ''texture'', env_initial_state = sample_state,
                    env_width = width sample_state, env_height = height sample_state,
                    env_render_texture_map = cfg_render_texture_map cfg\<rparr>)"

text \<open>
  Example configurations: a factory set under which no call raises, and a 3-by-1 grid
  with portals on (0,0) and (2,0), with and without an agent on (1,0).
\<close>

definition plain_factories :: factories where
  "plain_factories =
     \<lparr>raises = (\<lambda>t p. False),
      has_component = (\<lambda>name spec.
         (name = ''agent'' \<and> spec_kind spec = ''agent'') \<or>
         (name = ''collidable'' \<and> spec_kind spec \<in> {''agent'', ''box'', ''monster''}) \<or>
         (name = ''blocking'' \<and> spec_kind spec \<in> {''wall'', ''box''}) \<or>
         (name = ''pushable'' \<and> spec_kind spec = ''box'')),
      health_of = (\<lambda>spec. if spec_kind spec = ''agent'' then Some 5 else None),
      status_of = (\<lambda>spec. None)\<rparr>"

definition plain_token :: "string \<Rightarrow> token" where
  "plain_token t = \<lparr>ttype = t, params = []\<rparr>"

definition portal_cfg :: editor_config where
  "portal_cfg =
     \<lparr>cfg_width = 3, cfg_height = 1, cfg_move_fn = default_move_fn,
      cfg_objective_fn = default_objective_fn, cfg_seed = None,
      cfg_render_texture_map = [],
      cfg_grid_tokens = [[[plain_token ''floor'', plain_token ''portal''], [plain_token ''floor'', plain_token ''agent''],
                          [plain_token ''floor'', plain_token ''portal'']]]\<rparr>"

definition no_agent_cfg :: editor_config where
  "no_agent_cfg =
     portal_cfg\<lparr>cfg_grid_tokens := [[[plain_token ''floor'', plain_token ''portal''], [plain_token ''floor''],
                          [plain_token ''floor'', plain_token ''portal'']]]\<rparr>"

text \<open>
  Invariant of the build loop: every portal recorded in \<open>portal_specs\<close> is an object of the
  level, distinct cells hold distinct portal objects, and no cell is recorded twice.
\<close>

definition build_inv :: "build_state \<Rightarrow> bool" where
  "build_inv bs \<longleftrightarrow>
     (\<forall>c i. map_of (snd bs) c = Some i \<longrightarrow> i < length (fst bs)) \<and>
     (\<forall>c c' i. map_of (snd bs) c = Some i \<and> map_of (snd bs) c' = Some i \<longrightarrow> c = c') \<and>
     distinct (map fst (snd bs))"

text \<open>
  The cells named by a list of cell pairs, in order.
\<close>

definition flat_pairs :: "('a \<times> 'a) list \<Rightarrow> 'a list" where
  "flat_pairs ps = concat (map (\<lambda>(a, b). [a, b]) ps)"

text \<open>
  A store of pair references is symmetric when every reference is answered by the
  reference back.
\<close>

definition sym_refs :: "(nat \<rightharpoonup> nat) \<Rightarrow> bool" where
  "sym_refs refs \<longleftrightarrow> (\<forall>i j. refs i = Some j \<longrightarrow> refs j = Some i)"

text \<open>
  The token grid of a configuration covers the configured width and height: every cell
  the build loop visits exists. The editor's snapshot of its working grid is of this kind.
\<close>

definition grid_fits :: "editor_config \<Rightarrow> bool" where
  "grid_fits cfg \<longleftrightarrow>
     (\<forall>(y, x) \<in> set (grid_cells (cfg_width cfg) (cfg_height cfg)).
        y < length (cfg_grid_tokens cfg) \<and> x < length (cfg_grid_tokens cfg ! y))"

text \<open>
  The objects and the level built from \<open>portal_cfg\<close>, and the state \<open>to_state\<close> makes of
  it.
\<close>

definition portal_objs :: "(cell \<times> entity_spec) list" where
  "portal_objs =
     [((0, 0), \<lparr>spec_kind = ''floor'', spec_params = [(''cost'', PyInt 1)]\<rparr>),
      ((0, 0), \<lparr>spec_kind = ''portal'', spec_params = []\<rparr>),
      ((1, 0), \<lparr>spec_kind = ''floor'', spec_params = [(''cost'', PyInt 1)]\<rparr>),
      ((1, 0), \<lparr>spec_kind = ''agent'', spec_params = [(''health'', PyInt 5)]\<rparr>),
      ((2, 0), \<lparr>spec_kind = ''floor'', spec_params = [(''cost'', PyInt 1)]\<rparr>),
      ((2, 0), \<lparr>spec_kind = ''portal'', spec_params = []\<rparr>)]"

definition portal_level :: level where
  "portal_level =
     \<lparr>lvl_width = 3, lvl_height = 1, lvl_move_fn = default_move_fn,
      lvl_objective_fn = default_objective_fn, lvl_seed = None,
      objects = portal_objs, portal_pair_ref = [1 \<mapsto> 5, 5 \<mapsto> 1]\<rparr>"

definition authored_state :: state where
  "authored_state =
     \<lparr>width = 3, height = 1, move_fn = default_move_fn, objective_fn = default_objective_fn,
      position = [(0, Position 0 0), (1, Position 0 0), (2, Position 1 0),
                  (3, Position 1 0), (4, Position 2 0), (5, Position 2 0)],
      agent = [3], pushable = [], collidable = [3], blocking = [],
      health = [(3, 5)], portal = [(1, Portal 5), (5, Portal 1)], status = [],
      prev_position = [(0, Position 0 0), (1, Position 0 0), (2, Position 1 0),
                       (3, Position 1 0), (4, Position 2 0), (5, Position 2 0)],
      trail = [], seed = None\<rparr>"

text \<open>
  The authored state after the agent \<open>3\<close> has stepped from (1,0) onto the portal cell (0,0).
\<close>

definition entered_state :: state where
  "entered_state =
     authored_state\<lparr>position := AList.update 3 (Position 0 0) (position authored_state)\<rparr>"

text \<open>
  The objects and the level built from \<open>no_agent_cfg\<close>.
\<close>

definition no_agent_objs :: "(cell \<times> entity_spec) list" where
  "no_agent_objs =
     [((0, 0), \<lparr>spec_kind = ''floor'', spec_params = [(''cost'', PyInt 1)]\<rparr>),
      ((0, 0), \<lparr>spec_kind = ''portal'', spec_params = []\<rparr>),
      ((1, 0), \<lparr>spec_kind = ''floor'', spec_params = [(''cost'', PyInt 1)]\<rparr>),
      ((2, 0), \<lparr>spec_kind = ''floor'', spec_params = [(''cost'', PyInt 1)]\<rparr>),
      ((2, 0), \<lparr>spec_kind = ''portal'', spec_params = []\<rparr>)]"

definition no_agent_level :: level where
  "no_agent_level =
     \<lparr>lvl_width = 3, lvl_height = 1, lvl_move_fn = default_move_fn,
      lvl_objective_fn = default_objective_fn, lvl_seed = None,
      objects = no_agent_objs, portal_pair_ref = [1 \<mapsto> 4, 4 \<mapsto> 1]\<rparr>"

section \<open>Auxiliary facts\<close>

lemmas example_defs = box_state_def wall_state_def chain_state_def edge_state_def
  wrap_state_def portal_state_def dangling_state_def gap_state_def

lemmas eval_defs = entities_with_components_at_def entities_at_def compute_destination_def
  is_in_bounds_def is_blocked_at_def wrap_position_def Let_def get_augmented_trail_def

lemma map_of_push_loop:
  "map_of (push_loop s d ids np) e = (if e \<in> set ids then Some d else map_of np e)"
  by (induction ids arbitrary: np) (auto simp: update_conv' Let_def)

lemma map_of_teleport_loop:
  "map_of (teleport_loop d ids sp) e = (if e \<in> set ids then Some d else map_of sp e)"
  by (induction ids arbitrary: sp) (auto simp: update_conv')

lemma set_entities_at:
  "set (entities_at s pos) = {e. map_of (position s) e = Some pos}"
  by (auto simp: entities_at_def dest: map_of_SomeD intro: rev_image_eqI)

lemma set_entities_with_components_at:
  "set (entities_with_components_at s pos store) =
     {e. map_of (position s) e = Some pos \<and> e \<in> set store}"
  by (auto simp: entities_with_components_at_def set_entities_at)

lemma is_blocked_at_iff:
  "is_blocked_at s pos chk \<longleftrightarrow>
     (\<exists>e. map_of (position s) e = Some pos \<and>
        (e \<in> set (blocking s) \<or> (chk \<and> e \<in> set (collidable s))))"
  by (auto simp: is_blocked_at_def set_entities_at)

lemma push_system_frame:
  "push_system s eid np = Inr s' \<Longrightarrow> s' = s\<lparr>position := position s'\<rparr>"
  by (auto simp: push_system_def Let_def split: option.splits sum.splits if_splits)

lemma compute_destination_returns:
  "move_fn s \<noteq> wrap_around_move_fn \<or> (width s \<noteq> 0 \<and> height s \<noteq> 0) \<Longrightarrow>
     \<exists>d. compute_destination s cur np = Inr d"
  by (auto simp: compute_destination_def wrap_position_def Let_def)

lemma push_system_returns:
  assumes "move_fn s \<noteq> wrap_around_move_fn \<or> (width s \<noteq> 0 \<and> height s \<noteq> 0)"
  shows "\<exists>s'. push_system s eid np = Inr s'"
proof (cases "map_of (position s) eid")
  case None
  then show ?thesis by (simp add: push_system_def)
next
  case (Some cur)
  from compute_destination_returns[OF assms, of cur np]
  obtain d where "compute_destination s cur np = Inr d" by blast
  with Some show ?thesis
    by (cases d) (simp_all add: push_system_def Let_def)
qed

lemma portal_system_entity_frame:
  "portal_system_entity s t pid = s\<lparr>position := position (portal_system_entity s t pid)\<rparr>"
  by (auto simp: portal_system_entity_def split: option.splits)

lemma portal_loop_frame:
  "portal_loop t pids s = s\<lparr>position := position (portal_loop t pids s)\<rparr>"
proof (induction pids arbitrary: s)
  case Nil
  show ?case by simp
next
  case (Cons pid pids)
  let ?s1 = "portal_system_entity s t pid"
  have "portal_loop t (pid # pids) s = portal_loop t pids ?s1" by simp
  also have "\<dots> = ?s1\<lparr>position := position (portal_loop t pids ?s1)\<rparr>"
    by (rule Cons.IH)
  also have "\<dots> = s\<lparr>position := position (portal_loop t pids ?s1)\<rparr>"
    by (subst portal_system_entity_frame[of s t pid]) simp
  finally show ?case by simp
qed

lemma build_inv_append:
  assumes "build_inv (objs, ps)"
  shows "build_inv (objs @ [ob], ps)" and "build_inv (objs @ [ob], AList.update c (length objs) ps)"
proof -
  from assms have r: "\<forall>c i. map_of ps c = Some i \<longrightarrow> i < length objs"
    and inj: "\<forall>c c' i. map_of ps c = Some i \<and> map_of ps c' = Some i \<longrightarrow> c = c'"
    and d: "distinct (map fst ps)"
    by (simp_all add: build_inv_def)
  from r inj d show "build_inv (objs @ [ob], ps)"
    unfolding build_inv_def by (auto simp: less_Suc_eq)
  have r': "\<forall>c' i. map_of (AList.update c (length objs) ps) c' = Some i \<longrightarrow> i < length (objs @ [ob])"
    using r by (auto simp: update_conv' less_Suc_eq)
  have inj': "\<forall>c1 c2 i. map_of (AList.update c (length objs) ps) c1 = Some i \<and>
      map_of (AList.update c (length objs) ps) c2 = Some i \<longrightarrow> c1 = c2"
  proof (intro allI impI)
    fix c1 c2 i
    assume h: "map_of (AList.update c (length objs) ps) c1 = Some i \<and>
      map_of (AList.update c (length objs) ps) c2 = Some i"
    show "c1 = c2"
    proof (cases "c1 = c")
      case True
      with h have i: "i = length objs" by (simp add: update_conv')
      show ?thesis
      proof (cases "c2 = c")
        case True with \<open>c1 = c\<close> show ?thesis by simp
      next
        case False
        with h have "map_of ps c2 = Some i" by (simp add: update_conv')
        with r i show ?thesis by fastforce
      qed
    next
      case False
      with h have m1: "map_of ps c1 = Some i" by (simp add: update_conv')
      show ?thesis
      proof (cases "c2 = c")
        case True
        with h have "i = length objs" by (simp add: update_conv')
        with r m1 show ?thesis by fastforce
      next
        case False
        with h have "map_of ps c2 = Some i" by (simp add: update_conv')
        with inj m1 show ?thesis by blast
      qed
    qed
  qed
  from r' inj' d show "build_inv (objs @ [ob], AList.update c (length objs) ps)"
    unfolding build_inv_def by (simp add: distinct_update)
qed

lemma build_inv_add_token: "build_inv bs \<Longrightarrow> build_inv (add_token fs c tok bs)"
  by (cases bs) (auto simp: add_token_def Let_def build_inv_append split: option.splits)

lemma build_inv_add_tokens: "build_inv bs \<Longrightarrow> build_inv (add_tokens fs c toks bs)"
  by (induction toks arbitrary: bs) (auto simp: build_inv_add_token)

lemma build_inv_build_cells:
  "build_inv bs \<Longrightarrow> build_cells fs gt cells bs = Inr bs' \<Longrightarrow> build_inv bs'"
proof (induction cells arbitrary: bs)
  case Nil
  then show ?case by simp
next
  case (Cons yx cells)
  obtain y x where yx: "yx = (y, x)" by (cases yx)
  from Cons.prems(2) yx obtain row ct where
    "py_index gt y = Inr row" "py_index row x = Inr ct"
    "build_cells fs gt cells (add_tokens fs (int x, int y) ct bs) = Inr bs'"
    by (auto split: sum.splits)
  with Cons.IH[of "add_tokens fs (int x, int y) ct bs"] Cons.prems(1)
  show ?case by (simp add: build_inv_add_tokens)
qed

lemma set_flat_pairs_pair_up: "set (flat_pairs (pair_up xs)) \<subseteq> set xs"
  by (induction xs rule: pair_up.induct) (auto simp: flat_pairs_def)

lemma distinct_flat_pairs_pair_up: "distinct xs \<Longrightarrow> distinct (flat_pairs (pair_up xs))"
proof (induction xs rule: pair_up.induct)
  case (1 a b rest)
  from set_flat_pairs_pair_up[of rest] 1 show ?case
    by (auto simp: flat_pairs_def)
qed (simp_all add: flat_pairs_def)

lemma pair_step_inv:
  assumes inj: "\<forall>c c' i. map_of ps c = Some i \<and> map_of ps c' = Some i \<longrightarrow> c = c'"
    and rng: "\<forall>c i. map_of ps c = Some i \<longrightarrow> i < n"
    and sym: "sym_refs refs"
    and bnd: "\<forall>i j. refs i = Some j \<longrightarrow> i < n \<and> j < n"
    and ab: "a_pos \<noteq> b_pos"
    and fresh: "\<forall>c \<in> {a_pos, b_pos} \<union> rest. \<forall>i. map_of ps c = Some i \<longrightarrow> refs i = None"
    and rest: "a_pos \<notin> rest" "b_pos \<notin> rest"
  shows "sym_refs (pair_step ps refs (a_pos, b_pos)) \<and>
         (\<forall>i j. pair_step ps refs (a_pos, b_pos) i = Some j \<longrightarrow> i < n \<and> j < n) \<and>
         (\<forall>c \<in> rest. \<forall>i. map_of ps c = Some i \<longrightarrow> pair_step ps refs (a_pos, b_pos) i = None)"
proof (cases "map_of ps a_pos")
  case None
  with sym bnd fresh show ?thesis by (simp add: pair_step_def)
next
  case (Some a)
  note a = this
  show ?thesis
  proof (cases "map_of ps b_pos")
    case None
    with a sym bnd fresh show ?thesis by (simp add: pair_step_def)
  next
    case (Some b)
    from inj a Some ab have neq: "a \<noteq> b" by blast
    from fresh a have ra: "refs a = None" by blast
    from fresh Some have rb: "refs b = None" by blast
    have step: "pair_step ps refs (a_pos, b_pos) = refs(a \<mapsto> b, b \<mapsto> a)"
      using a Some neq rb by (simp add: pair_step_def Let_def)
    have s1: "sym_refs (refs(a \<mapsto> b, b \<mapsto> a))"
      unfolding sym_refs_def
    proof (intro allI impI)
      fix i j assume h: "(refs(a \<mapsto> b, b \<mapsto> a)) i = Some j"
      show "(refs(a \<mapsto> b, b \<mapsto> a)) j = Some i"
      proof (cases "i = a \<or> i = b")
        case True
        with h neq show ?thesis by auto
      next
        case False
        with h have r: "refs i = Some j" by simp
        with sym have "refs j = Some i" unfolding sym_refs_def by blast
        with ra rb have "j \<noteq> a" "j \<noteq> b" by auto
        with \<open>refs j = Some i\<close> show ?thesis by simp
      qed
    qed
    from rng a Some have "a < n" "b < n" by blast+
    with bnd have s2: "\<forall>i j. (refs(a \<mapsto> b, b \<mapsto> a)) i = Some j \<longrightarrow> i < n \<and> j < n"
      by (auto split: if_splits)
    have s3: "\<forall>c \<in> rest. \<forall>i. map_of ps c = Some i \<longrightarrow> (refs(a \<mapsto> b, b \<mapsto> a)) i = None"
    proof (intro ballI allI impI)
      fix c i assume c: "c \<in> rest" and i: "map_of ps c = Some i"
      from c rest have "c \<noteq> a_pos" "c \<noteq> b_pos" by auto
      with inj a Some i have "i \<noteq> a" "i \<noteq> b" by blast+
      moreover from fresh c i have "refs i = None" by blast
      ultimately show "(refs(a \<mapsto> b, b \<mapsto> a)) i = None" by simp
    qed
    from s1 s2 s3 step show ?thesis by simp
  qed
qed

lemma foldl_pair_step_inv:
  assumes inj: "\<forall>c c' i. map_of ps c = Some i \<and> map_of ps c' = Some i \<longrightarrow> c = c'"
    and rng: "\<forall>c i. map_of ps c = Some i \<longrightarrow> i < n"
  shows "sym_refs refs \<Longrightarrow> (\<forall>i j. refs i = Some j \<longrightarrow> i < n \<and> j < n) \<Longrightarrow>
     distinct (flat_pairs pairs) \<Longrightarrow>
     (\<forall>c \<in> set (flat_pairs pairs). \<forall>i. map_of ps c = Some i \<longrightarrow> refs i = None) \<Longrightarrow>
     sym_refs (foldl (pair_step ps) refs pairs) \<and>
     (\<forall>i j. foldl (pair_step ps) refs pairs i = Some j \<longrightarrow> i < n \<and> j < n)"
proof (induction pairs arbitrary: refs)
  case Nil
  then show ?case by simp
next
  case (Cons pr pairs)
  obtain a_pos b_pos where pr: "pr = (a_pos, b_pos)" by (cases pr)
  from Cons.prems(3) pr have ab: "a_pos \<noteq> b_pos"
    and nr: "a_pos \<notin> set (flat_pairs pairs)" "b_pos \<notin> set (flat_pairs pairs)"
    and d: "distinct (flat_pairs pairs)"
    by (auto simp: flat_pairs_def)
  from Cons.prems(4) pr
  have fresh: "\<forall>c \<in> {a_pos, b_pos} \<union> set (flat_pairs pairs).
      \<forall>i. map_of ps c = Some i \<longrightarrow> refs i = None"
    by (auto simp: flat_pairs_def)
  from pair_step_inv[OF inj rng Cons.prems(1) Cons.prems(2) ab fresh nr]
  have st: "sym_refs (pair_step ps refs (a_pos, b_pos))"
    "\<forall>i j. pair_step ps refs (a_pos, b_pos) i = Some j \<longrightarrow> i < n \<and> j < n"
    "\<forall>c \<in> set (flat_pairs pairs). \<forall>i. map_of ps c = Some i \<longrightarrow>
        pair_step ps refs (a_pos, b_pos) i = None"
    by blast+
  from Cons.IH[OF st(1) st(2) d st(3)] pr show ?case by simp
qed

lemma row_cells_props:
  "distinct (concat (map (\<lambda>(xx, ct). if P ct then [(int xx, yy)] else []) (enumerate n row))) \<and>
   (\<forall>c \<in> set (concat (map (\<lambda>(xx, ct). if P ct then [(int xx, yy)] else []) (enumerate n row))).
      int n \<le> fst c \<and> snd c = yy)"
proof (induction row arbitrary: n)
  case Nil
  show ?case by simp
next
  case (Cons ct row)
  from Cons.IH[of "Suc n"] show ?case by (auto simp: enumerate_simps)
qed

lemma portal_cells_props:
  "distinct (concat (map (\<lambda>(yy, row).
        concat (map (\<lambda>(xx, ct). if P ct then [(int xx, int yy)] else []) (enumerate 0 row)))
       (enumerate m grid))) \<and>
   (\<forall>c \<in> set (concat (map (\<lambda>(yy, row).
        concat (map (\<lambda>(xx, ct). if P ct then [(int xx, int yy)] else []) (enumerate 0 row)))
       (enumerate m grid))). int m \<le> snd c)"
proof (induction grid arbitrary: m)
  case Nil
  show ?case by simp
next
  case (Cons row grid)
  from Cons.IH[of "Suc m"] row_cells_props[of P "int m" 0 row]
  show ?case by (fastforce simp: enumerate_simps)
qed

lemma distinct_portal_cells: "distinct (portal_cells grid)"
  using portal_cells_props[of "list_ex (\<lambda>t. ttype t = ''portal'')" 0 grid]
  by (simp add: portal_cells_def)

lemma map_of_portal_store:
  "map_of (concat (map (\<lambda>(i, c, spec). case refs i of None \<Rightarrow> []
                          | Some j \<Rightarrow> [(int i, Portal (int j))]) (enumerate n objs))) k =
     (if int n \<le> k \<and> k < int (n + length objs)
      then map_option (\<lambda>j. Portal (int j)) (refs (nat k)) else None)"
proof (induction objs arbitrary: n)
  case Nil
  show ?case by auto
next
  case (Cons ob objs)
  obtain c spec where ob: "ob = (c, spec)" by (cases ob)
  show ?case
  proof (cases "k = int n")
    case True
    with Cons.IH[of "Suc n"] ob show ?thesis
      by (auto simp: enumerate_simps split: option.splits)
  next
    case False
    with Cons.IH[of "Suc n"] ob show ?thesis
      by (auto simp: enumerate_simps split: option.splits)
  qed
qed

lemma map_of_position_store:
  "map_of (map (\<lambda>(i, c, spec). (int i, Position (fst c) (snd c))) (enumerate n objs)) k =
     (if int n \<le> k \<and> k < int (n + length objs)
      then Some (Position (fst (fst (objs ! (nat k - n)))) (snd (fst (objs ! (nat k - n)))))
      else None)"
proof (induction objs arbitrary: n)
  case Nil
  show ?case by auto
next
  case (Cons ob objs)
  obtain c spec where ob: "ob = (c, spec)" by (cases ob)
  show ?case
  proof (cases "k = int n")
    case True
    with ob show ?thesis by (simp add: enumerate_simps)
  next
    case False
    have "int (Suc n) \<le> k \<and> k < int (Suc n + length objs) \<Longrightarrow> nat k - n = Suc (nat k - Suc n)"
      by linarith
    with False Cons.IH[of "Suc n"] ob show ?thesis
      by (auto simp: enumerate_simps)
  qed
qed

lemma portal_to_state:
  "map_of (portal (to_state fs lvl)) k =
     (if 0 \<le> k \<and> k < int (length (objects lvl))
      then map_option (\<lambda>j. Portal (int j)) (portal_pair_ref lvl (nat k)) else None)"
  using map_of_portal_store[of "portal_pair_ref lvl" 0 "objects lvl" k]
  by (simp add: to_state_def Let_def)

lemma position_to_state:
  "map_of (position (to_state fs lvl)) k \<noteq> None \<longleftrightarrow> 0 \<le> k \<and> k < int (length (objects lvl))"
  using map_of_position_store[of 0 "objects lvl" k]
  by (simp add: to_state_def Let_def)

lemma build_level_refs:
  assumes pp: "editor_portal_pairs = None \<or> (\<exists>grid. editor_portal_pairs = Some (pair_portals grid))"
    and b: "build_level_from_tokens fs editor_portal_pairs cfg = Inr lvl"
  shows "sym_refs (portal_pair_ref lvl) \<and>
     (\<forall>i j. portal_pair_ref lvl i = Some j \<longrightarrow> i < length (objects lvl) \<and> j < length (objects lvl))"
proof -
  from b obtain objs ps where
    bc: "build_cells fs (cfg_grid_tokens cfg) (grid_cells (cfg_width cfg) (cfg_height cfg)) ([], [])
           = Inr (objs, ps)"
    by (auto simp: build_level_from_tokens_def split: sum.splits)
  define pairs where "pairs = (case editor_portal_pairs of Some stored \<Rightarrow> stored
     | None \<Rightarrow> pair_up (map fst ps))"
  from b bc have lvl: "objects lvl = objs"
    "portal_pair_ref lvl = foldl (pair_step ps) Map.empty pairs"
    by (auto simp: build_level_from_tokens_def Let_def pairs_def)
  have "build_inv ([], [])" by (simp add: build_inv_def)
  from build_inv_build_cells[OF this bc]
  have rng: "\<forall>c i. map_of ps c = Some i \<longrightarrow> i < length objs"
    and inj: "\<forall>c c' i. map_of ps c = Some i \<and> map_of ps c' = Some i \<longrightarrow> c = c'"
    and d: "distinct (map fst ps)"
    by (simp_all add: build_inv_def)
  have dp: "distinct (flat_pairs pairs)"
  proof (cases editor_portal_pairs)
    case None
    with d show ?thesis by (simp add: pairs_def distinct_flat_pairs_pair_up)
  next
    case (Some stored)
    with pp obtain grid where "stored = pair_portals grid" by auto
    with Some show ?thesis
      by (simp add: pairs_def pair_portals_def distinct_flat_pairs_pair_up distinct_portal_cells)
  qed
  have "sym_refs Map.empty" by (simp add: sym_refs_def)
  from foldl_pair_step_inv[OF inj rng this _ dp, of ] lvl
  show ?thesis by simp
qed

lemma teleport_lands:
  assumes "map_of (position s) pid = Some pp"
    and "map_of (portal s) pid = Some ptl"
    and "map_of (position s) (pair_entity ptl) = Some pairp"
    and "t pp = Some es" and "e \<in> set es" and "e \<in> set (collidable s)"
    and "map_of (prev_position s) e \<noteq> map_of (position s) e"
  shows "map_of (position (portal_system_entity s t pid)) e = Some pairp"
  using assms
  by (auto simp: portal_system_entity_def entering_entity_ids_def map_of_teleport_loop)

lemma build_cells_fits:
  "\<forall>(y, x) \<in> set cells. y < length gt \<and> x < length (gt ! y) \<Longrightarrow>
     \<exists>bs'. build_cells fs gt cells bs = Inr bs'"
proof (induction cells arbitrary: bs)
  case Nil
  show ?case by simp
next
  case (Cons yx cells)
  obtain y x where yx: "yx = (y, x)" by (cases yx)
  with Cons.prems have "y < length gt" "x < length (gt ! y)"
    and rest: "\<forall>(y, x) \<in> set cells. y < length gt \<and> x < length (gt ! y)"
    by auto
  with Cons.IH[OF rest, of "add_tokens fs (int x, int y) (gt ! y ! x) bs"] yx
  show ?case by (simp add: py_index_def)
qed

lemma agent_store_empty:
  "agent (to_state fs lvl) = [] \<longleftrightarrow>
     \<not> (\<exists>(c, spec) \<in> set (objects lvl). has_component fs ''agent'' spec)"
proof -
  let ?Q = "\<lambda>ob. has_component fs ''agent'' (snd ob)"
  have img: "snd ` set (enumerate 0 (objects lvl)) = set (objects lvl)"
    by (metis map_snd_enumerate set_map)
  have "agent (to_state fs lvl) = [] \<longleftrightarrow>
      (\<forall>p \<in> set (enumerate 0 (objects lvl)). \<not> ?Q (snd p))"
    by (simp add: to_state_def Let_def filter_empty_conv split_beta)
  also have "\<dots> \<longleftrightarrow> (\<forall>ob \<in> snd ` set (enumerate 0 (objects lvl)). \<not> ?Q ob)"
    by blast
  also have "\<dots> \<longleftrightarrow> (\<forall>ob \<in> set (objects lvl). \<not> ?Q ob)"
    by (simp only: img)
  finally show ?thesis by (simp add: split_beta)
qed

lemma portal_cells_eval:
  "build_cells plain_factories (cfg_grid_tokens portal_cfg)
     (grid_cells 3 1) ([], []) =
   Inr (portal_objs, [((0, 0), 1), ((2, 0), 5)])"
  by code_simp

lemma portal_pairs_eval: "pair_portals (cfg_grid_tokens portal_cfg) = [((0, 0), (2, 0))]"
  by code_simp

lemma portal_cfg_fields:
  "cfg_width portal_cfg = 3" "cfg_height portal_cfg = 1"
  "cfg_move_fn portal_cfg = default_move_fn" "cfg_objective_fn portal_cfg = default_objective_fn"
  "cfg_seed portal_cfg = None" "cfg_render_texture_map portal_cfg = []"
  by (simp_all add: portal_cfg_def)

lemma portal_level_built:
  "build_level_from_tokens plain_factories (Some (pair_portals (cfg_grid_tokens portal_cfg)))
     portal_cfg = Inr portal_level"
  by (simp add: build_level_from_tokens_def portal_cells_eval portal_pairs_eval
      portal_level_def pair_step_def portal_cfg_fields)

lemma portal_level_built_fallback:
  "build_level_from_tokens plain_factories None portal_cfg = Inr portal_level"
  by (simp add: build_level_from_tokens_def portal_cells_eval
      portal_level_def pair_step_def portal_cfg_fields)

lemma to_state_portal_level: "to_state plain_factories portal_level = authored_state"
  by code_simp

lemma no_agent_cfg_fields:
  "cfg_width no_agent_cfg = 3" "cfg_height no_agent_cfg = 1"
  "cfg_move_fn no_agent_cfg = default_move_fn"
  "cfg_objective_fn no_agent_cfg = default_objective_fn"
  "cfg_seed no_agent_cfg = None" "cfg_render_texture_map no_agent_cfg = []"
  by (simp_all add: no_agent_cfg_def portal_cfg_def)

lemma no_agent_cells_eval:
  "build_cells plain_factories (cfg_grid_tokens no_agent_cfg) (grid_cells 3 1) ([], []) =
   Inr (no_agent_objs, [((0, 0), 1), ((2, 0), 4)])"
  by code_simp

lemma no_agent_level_built:
  "build_level_from_tokens plain_factories None no_agent_cfg = Inr no_agent_level"
  by (simp add: build_level_from_tokens_def no_agent_cells_eval
      no_agent_level_def pair_step_def no_agent_cfg_fields)

section \<open>Claims about the push system\<close>

text \<open>
  Claim C1 (push atomicity). Let the pusher \<open>eid\<close> stand on \<open>cur\<close>, let the target
  cell \<open>np\<close> be another cell holding at least one pushable entity, and let
  \<open>compute_destination\<close> yield the cell \<open>dest\<close>. If \<open>dest\<close> is blocked,
  \<open>push_system\<close> returns the state it was given. Otherwise it returns a state in which
  the pusher stands on \<open>np\<close>, every pushable entity that stood on \<open>np\<close> stands on
  \<open>dest\<close>, and every other entity is where it was: all move or none does. (The case in
  which no destination cell is computed belongs to claim C4.)
\<close>

theorem push_atomicity:
  assumes "map_of (position s) eid = Some cur"
    and "np \<noteq> cur"
    and "entities_with_components_at s np (pushable s) \<noteq> []"
    and "compute_destination s cur np = Inr (Some dest)"
  shows "(is_blocked_at s dest True \<longrightarrow> push_system s eid np = Inr s) \<and>
         (\<not> is_blocked_at s dest True \<longrightarrow>
            (\<exists>s'. push_system s eid np = Inr s' \<and>
               map_of (position s') eid = Some np \<and>
               (\<forall>e. map_of (position s) e = Some np \<and> e \<in> set (pushable s) \<longrightarrow>
                  map_of (position s') e = Some dest) \<and>
               (\<forall>e. e \<noteq> eid \<and> \<not> (map_of (position s) e = Some np \<and> e \<in> set (pushable s)) \<longrightarrow>
                  map_of (position s') e = map_of (position s) e)))"
  using assms
  by (auto simp: push_system_def Let_def map_of_push_loop set_entities_with_components_at
      update_conv')

text \<open>
  Witness for C1: the wall scenario (destination blocked, nothing moves) and the box
  scenario (agent ends on (1,0), box on (2,0)).
\<close>

theorem push_atomicity_witness:
  "push_system wall_state 1 (Position 1 0) = Inr wall_state \<and>
   (\<exists>s'. push_system box_state 1 (Position 1 0) = Inr s' \<and>
      map_of (position s') 1 = Some (Position 1 0) \<and>
      map_of (position s') 2 = Some (Position 2 0))"
proof -
  have w1: "map_of (position wall_state) 1 = Some (Position 0 0)"
    by (simp add: example_defs)
  have w2: "Position 1 0 \<noteq> Position 0 0" by simp
  have w3: "entities_with_components_at wall_state (Position 1 0) (pushable wall_state) \<noteq> []"
    by (simp add: example_defs eval_defs)
  have w4: "compute_destination wall_state (Position 0 0) (Position 1 0) = Inr (Some (Position 2 0))"
    by (simp add: example_defs eval_defs)
  have w5: "is_blocked_at wall_state (Position 2 0) True"
    by (simp add: example_defs eval_defs)
  have blocked: "push_system wall_state 1 (Position 1 0) = Inr wall_state"
    using push_atomicity[OF w1 w2 w3 w4] w5 by blast
  have b1: "map_of (position box_state) 1 = Some (Position 0 0)"
    by (simp add: example_defs)
  have b3: "entities_with_components_at box_state (Position 1 0) (pushable box_state) \<noteq> []"
    by (simp add: example_defs eval_defs)
  have b4: "compute_destination box_state (Position 0 0) (Position 1 0) = Inr (Some (Position 2 0))"
    by (simp add: example_defs eval_defs)
  have b5: "\<not> is_blocked_at box_state (Position 2 0) True"
    by (simp add: example_defs eval_defs)
  have b6: "map_of (position box_state) 2 = Some (Position 1 0) \<and> 2 \<in> set (pushable box_state)"
    by (simp add: example_defs)
  from push_atomicity[OF b1 w2 b3 b4] b5
  obtain s' where s': "push_system box_state 1 (Position 1 0) = Inr s'"
      "map_of (position s') 1 = Some (Position 1 0)"
      "\<forall>e. map_of (position box_state) e = Some (Position 1 0) \<and> e \<in> set (pushable box_state)
         \<longrightarrow> map_of (position s') e = Some (Position 2 0)"
    by blast
  from s'(3) b6 have "map_of (position s') 2 = Some (Position 2 0)" by blast
  with s'(1,2) blocked show ?thesis by blast
qed

text \<open>
  Claim C3 as stated (a chain of pushables is displaced together) fails: with boxes on
  (1,0) and (2,0), cell (3,0) free and in bounds, the push of the agent from (0,0) into
  (1,0) returns the state unchanged; neither box moves and the agent does not advance.
\<close>

theorem chained_push_counterexample:
  "entities_with_components_at chain_state (Position 2 0) (pushable chain_state) = [3] \<and>
   entities_at chain_state (Position 3 0) = [] \<and>
   is_in_bounds chain_state (Position 3 0) \<and>
   push_system chain_state 1 (Position 1 0) = Inr chain_state \<and>
   map_of (position chain_state) 1 = Some (Position 0 0) \<and>
   map_of (position chain_state) 2 = Some (Position 1 0) \<and>
   map_of (position chain_state) 3 = Some (Position 2 0)"
  by (simp add: push_system_def example_defs eval_defs)

text \<open>
  Claim C3, amended. \<open>push_system\<close> performs no chained displacement: it moves only
  the pusher and the pushable entities stacked on the target cell. Every entity that is
  neither the pusher nor a pushable entity standing on the target cell keeps its
  position: an occupant of the destination cell, an entity anywhere else, and also a
  non-pushable entity that shares the target cell. When the destination cell is
  occupied by a \<open>Blocking\<close> or \<open>Collidable\<close> entity, such as a second box, the push
  is aborted and the state is returned unchanged.
\<close>

theorem push_no_chain:
  "(\<forall>s' e. push_system s eid np = Inr s' \<and> e \<noteq> eid \<and>
       \<not> (map_of (position s) e = Some np \<and> e \<in> set (pushable s)) \<longrightarrow>
       map_of (position s') e = map_of (position s) e) \<and>
   (\<forall>cur dest occ. map_of (position s) eid = Some cur \<and>
       compute_destination s cur np = Inr (Some dest) \<and>
       map_of (position s) occ = Some dest \<and>
       (occ \<in> set (blocking s) \<or> occ \<in> set (collidable s)) \<longrightarrow>
       push_system s eid np = Inr s)"
proof -
  have moved: "map_of (position s') e = map_of (position s) e"
    if "push_system s eid np = Inr s'" and "e \<noteq> eid"
      and "\<not> (map_of (position s) e = Some np \<and> e \<in> set (pushable s))" for s' e
    using that
    by (auto simp: push_system_def Let_def map_of_push_loop set_entities_with_components_at
        update_conv' split: option.splits sum.splits if_splits)
  have aborted: "push_system s eid np = Inr s"
    if "map_of (position s) eid = Some cur"
      and "compute_destination s cur np = Inr (Some dest)"
      and "map_of (position s) occ = Some dest"
      and "occ \<in> set (blocking s) \<or> occ \<in> set (collidable s)" for cur dest occ
    using that
    by (auto simp: push_system_def Let_def is_blocked_at_iff)
  from moved aborted show ?thesis by blast
qed

text \<open>
  Witness for the amended C3: in the chain scenario the push is aborted; with a free
  cell between the boxes the first box moves to (2,0), the second box stays on (3,0)
  and the floor tile under the first box stays on (1,0).
\<close>

theorem push_no_chain_witness:
  "push_system chain_state 1 (Position 1 0) = Inr chain_state \<and>
   (\<exists>s'. push_system gap_state 1 (Position 1 0) = Inr s' \<and>
      map_of (position s') 1 = Some (Position 1 0) \<and>
      map_of (position s') 2 = Some (Position 2 0) \<and>
      map_of (position s') 3 = Some (Position 3 0) \<and>
      map_of (position s') 7 = Some (Position 1 0))"
proof -
  have c: "map_of (position chain_state) 1 = Some (Position 0 0) \<and>
      compute_destination chain_state (Position 0 0) (Position 1 0) = Inr (Some (Position 2 0)) \<and>
      map_of (position chain_state) 3 = Some (Position 2 0) \<and>
      (3 \<in> set (blocking chain_state) \<or> 3 \<in> set (collidable chain_state))"
    by (simp add: example_defs eval_defs)
  from push_no_chain[where s=chain_state and eid=1 and np="Position 1 0"] c
  have a: "push_system chain_state 1 (Position 1 0) = Inr chain_state"
    by blast
  let ?s' = "gap_state\<lparr>position :=
      [(1, Position 1 0), (2, Position 2 0), (3, Position 3 0), (7, Position 1 0)]\<rparr>"
  have g: "push_system gap_state 1 (Position 1 0) = Inr ?s'"
    by (simp add: push_system_def example_defs eval_defs)
  have n3: "(3::int) \<noteq> 1 \<and>
      \<not> (map_of (position gap_state) 3 = Some (Position 1 0) \<and> 3 \<in> set (pushable gap_state))"
    by (simp add: example_defs)
  have n7: "(7::int) \<noteq> 1 \<and>
      \<not> (map_of (position gap_state) 7 = Some (Position 1 0) \<and> 7 \<in> set (pushable gap_state))"
    by (simp add: example_defs)
  note frame = push_no_chain[where s=gap_state and eid=1 and np="Position 1 0"]
  from frame g n3 have "map_of (position ?s') 3 = map_of (position gap_state) 3"
    by blast
  then have p3: "map_of (position ?s') 3 = Some (Position 3 0)"
    by (simp add: example_defs)
  from frame g n7 have "map_of (position ?s') 7 = map_of (position gap_state) 7"
    by blast
  then have p7: "map_of (position ?s') 7 = Some (Position 1 0)"
    by (simp add: example_defs)
  have p1: "map_of (position ?s') 1 = Some (Position 1 0)" by simp
  have p2: "map_of (position ?s') 2 = Some (Position 2 0)" by simp
  from a g p1 p2 p3 p7 show ?thesis by blast
qed

text \<open>
  Claim C4 (push destination). \<open>compute_destination\<close> works on the cell one step
  beyond \<open>np\<close> in the direction from \<open>cur\<close> to \<open>np\<close>. Under the wrap rule (on a grid
  with non-zero width and height, where the modulus is defined) it returns that cell
  with its coordinates taken modulo width and height. Under any other rule it returns
  the cell itself when it is in bounds; when it is out of bounds the result is
  \<open>None\<close>, and a push by an entity standing on \<open>cur\<close> returns the state unchanged,
  as a value and not as an error.
\<close>

theorem compute_destination_spec:
  "(move_fn s = wrap_around_move_fn \<and> width s \<noteq> 0 \<and> height s \<noteq> 0 \<longrightarrow>
      compute_destination s cur np =
        Inr (Some (Position ((pos_x np + (pos_x np - pos_x cur)) mod width s)
                            ((pos_y np + (pos_y np - pos_y cur)) mod height s)))) \<and>
   (move_fn s \<noteq> wrap_around_move_fn \<and>
      is_in_bounds s (Position (pos_x np + (pos_x np - pos_x cur)) (pos_y np + (pos_y np - pos_y cur))) \<longrightarrow>
      compute_destination s cur np =
        Inr (Some (Position (pos_x np + (pos_x np - pos_x cur)) (pos_y np + (pos_y np - pos_y cur))))) \<and>
   (move_fn s \<noteq> wrap_around_move_fn \<and>
      \<not> is_in_bounds s (Position (pos_x np + (pos_x np - pos_x cur)) (pos_y np + (pos_y np - pos_y cur))) \<longrightarrow>
      compute_destination s cur np = Inr None \<and>
      (\<forall>eid. map_of (position s) eid = Some cur \<longrightarrow> push_system s eid np = Inr s))"
  by (auto simp: compute_destination_def wrap_position_def Let_def push_system_def)

text \<open>
  Witness for C4: the wrap rule takes (3,0) to (0,0) on the 3-by-1 grid; the bounded
  rule yields (2,0) for the box scenario and \<open>None\<close> for the box against the edge,
  where the push changes nothing.
\<close>

theorem compute_destination_spec_witness:
  "compute_destination wrap_state (Position 1 0) (Position 2 0) = Inr (Some (Position 0 0)) \<and>
   compute_destination box_state (Position 0 0) (Position 1 0) = Inr (Some (Position 2 0)) \<and>
   compute_destination edge_state (Position 1 0) (Position 2 0) = Inr None \<and>
   push_system edge_state 1 (Position 2 0) = Inr edge_state"
proof -
  have a: "move_fn wrap_state = wrap_around_move_fn \<and> width wrap_state \<noteq> 0 \<and> height wrap_state \<noteq> 0"
    by (simp add: example_defs)
  have wv: "width wrap_state = 3" "height wrap_state = 1" by (simp_all add: example_defs)
  from compute_destination_spec[where s=wrap_state and np="Position 2 0" and cur="Position 1 0"] a
  have "compute_destination wrap_state (Position 1 0) (Position 2 0) =
      Inr (Some (Position ((pos_x (Position 2 0) + (pos_x (Position 2 0) - pos_x (Position 1 0))) mod width wrap_state)
                            ((pos_y (Position 2 0) + (pos_y (Position 2 0) - pos_y (Position 1 0))) mod height wrap_state)))"
    by blast
  then have c1: "compute_destination wrap_state (Position 1 0) (Position 2 0) = Inr (Some (Position 0 0))"
    by (simp add: wv)
  have b: "move_fn box_state \<noteq> wrap_around_move_fn \<and>
      is_in_bounds box_state (Position (pos_x (Position 1 0) + (pos_x (Position 1 0) - pos_x (Position 0 0)))
         (pos_y (Position 1 0) + (pos_y (Position 1 0) - pos_y (Position 0 0))))"
    by (simp add: example_defs is_in_bounds_def)
  from compute_destination_spec[where s=box_state and np="Position 1 0" and cur="Position 0 0"] b
  have "compute_destination box_state (Position 0 0) (Position 1 0) =
        Inr (Some (Position (pos_x (Position 1 0) + (pos_x (Position 1 0) - pos_x (Position 0 0)))
         (pos_y (Position 1 0) + (pos_y (Position 1 0) - pos_y (Position 0 0)))))"
    by blast
  then have c2: "compute_destination box_state (Position 0 0) (Position 1 0) = Inr (Some (Position 2 0))"
    by simp
  have c: "move_fn edge_state \<noteq> wrap_around_move_fn \<and>
      \<not> is_in_bounds edge_state (Position (pos_x (Position 2 0) + (pos_x (Position 2 0) - pos_x (Position 1 0)))
         (pos_y (Position 2 0) + (pos_y (Position 2 0) - pos_y (Position 1 0))))"
    by (simp add: example_defs is_in_bounds_def)
  have d: "map_of (position edge_state) 1 = Some (Position 1 0)"
    by (simp add: example_defs)
  from compute_destination_spec[where s=edge_state and np="Position 2 0" and cur="Position 1 0"] c d
  have c3: "compute_destination edge_state (Position 1 0) (Position 2 0) = Inr None \<and>
      push_system edge_state 1 (Position 2 0) = Inr edge_state"
    by blast
  from c1 c2 c3 show ?thesis by blast
qed

text \<open>
  Claim C5 (trail extension on push) does not hold of the code. \<open>push_system\<close> calls
  \<open>add_trail_position\<close> and drops the state it returns, so the state it hands back
  carries the trail of its input. In the box scenario the push succeeds, the returned
  trail is still empty, and the state \<open>add_trail_position\<close> would have produced
  records cell (2,0) for the box.
\<close>

theorem push_trail_not_extended:
  "push_system box_state 1 (Position 1 0) =
     Inr (box_state\<lparr>position := [(1, Position 1 0), (2, Position 2 0)]\<rparr>) \<and>
   trail (box_state\<lparr>position := [(1, Position 1 0), (2, Position 2 0)]\<rparr>) = [] \<and>
   map_of (trail (add_trail_position box_state 2 (Position 2 0))) 2 = Some [Position 2 0]"
  by (simp add: push_system_def add_trail_position_def example_defs eval_defs)

section \<open>Claims about the portal system\<close>

text \<open>
  Claim C2 (portal teleport condition). For a portal that has a position, a portal
  component and a pair with a position, \<open>portal_system_entity\<close> puts on the pair's
  position exactly the entities that are collidable, are listed in the augmented trail
  at the portal's cell, and whose previous position differs from the current one. Every
  other entity, among them one that was already resting on the portal's cell, keeps its
  position.
\<close>

theorem portal_teleport_condition:
  assumes "map_of (position s) pid = Some pp"
    and "map_of (portal s) pid = Some ptl"
    and "map_of (position s) (pair_entity ptl) = Some pairp"
  shows "map_of (position (portal_system_entity s t pid)) e =
     (if e \<in> set (collidable s) \<and> (\<exists>es. t pp = Some es \<and> e \<in> set es) \<and>
         map_of (prev_position s) e \<noteq> map_of (position s) e
      then Some pairp else map_of (position s) e)"
  using assms
  by (auto simp: portal_system_entity_def entering_entity_ids_def map_of_teleport_loop
      split: option.splits)

text \<open>
  Witness for C2: the agent that entered (0,0) lands on (4,4); the entity resting on
  (0,0) stays.
\<close>

theorem portal_teleport_condition_witness:
  "map_of (position (portal_system_entity portal_state
       (get_augmented_trail portal_state (collidable portal_state)) 10)) 1 = Some (Position 4 4) \<and>
   map_of (position (portal_system_entity portal_state
       (get_augmented_trail portal_state (collidable portal_state)) 10)) 2 = Some (Position 0 0)"
  using portal_teleport_condition[of portal_state 10 "Position 0 0" "Portal 11" "Position 4 4"
      "get_augmented_trail portal_state (collidable portal_state)" 1]
    portal_teleport_condition[of portal_state 10 "Position 0 0" "Portal 11" "Position 4 4"
      "get_augmented_trail portal_state (collidable portal_state)" 2]
  by (simp add: example_defs get_augmented_trail_def)

text \<open>
  Claim C6 (teleport bypasses destination blocking). An entity that satisfies the
  entering condition at a portal with a valid pair lands on the pair's cell whether or
  not that cell is blocked: \<open>portal_system_entity\<close> never consults
  \<open>is_blocked_at\<close>.
\<close>

theorem teleport_ignores_blocking:
  assumes "map_of (position s) pid = Some pp"
    and "map_of (portal s) pid = Some ptl"
    and "map_of (position s) (pair_entity ptl) = Some pairp"
    and "t pp = Some es" and "e \<in> set es" and "e \<in> set (collidable s)"
    and "map_of (prev_position s) e \<noteq> map_of (position s) e"
  shows "(is_blocked_at s pairp chk \<longrightarrow>
            map_of (position (portal_system_entity s t pid)) e = Some pairp) \<and>
         (\<not> is_blocked_at s pairp chk \<longrightarrow>
            map_of (position (portal_system_entity s t pid)) e = Some pairp)"
  using assms
  by (auto simp: portal_system_entity_def entering_entity_ids_def map_of_teleport_loop)

text \<open>Witness for C6: a wall stands on the paired cell (4,4) and the agent lands there.\<close>

theorem teleport_ignores_blocking_witness:
  "is_blocked_at portal_state (Position 4 4) True \<and>
   map_of (position (portal_system_entity portal_state
       (get_augmented_trail portal_state (collidable portal_state)) 10)) 1 = Some (Position 4 4)"
  using teleport_ignores_blocking[of portal_state 10 "Position 0 0" "Portal 11" "Position 4 4"
      "get_augmented_trail portal_state (collidable portal_state)" "[1, 2]" 1 True]
  by (simp add: example_defs eval_defs)

text \<open>
  Claim C7 (portal inertness on dangling references). If the portal has no position, or
  no portal component, or its pair entity has no position, \<open>portal_system_entity\<close>
  returns the state it was given. The function is total: none of its operations raises
  (lookups are \<open>.get\<close>), so it has no error result.
\<close>

theorem portal_inert:
  assumes "map_of (position s) pid = None \<or> map_of (portal s) pid = None \<or>
     (\<exists>ptl. map_of (portal s) pid = Some ptl \<and> map_of (position s) (pair_entity ptl) = None)"
  shows "portal_system_entity s t pid = s"
  using assms
  by (auto simp: portal_system_entity_def split: option.splits)

text \<open>
  Witness for C7: a portal whose pair has no position, an entity that is no portal, and
  an agent that is no portal.
\<close>

theorem portal_inert_witness:
  "portal_system_entity dangling_state
     (get_augmented_trail dangling_state (collidable dangling_state)) 10 = dangling_state \<and>
   portal_system_entity dangling_state
     (get_augmented_trail dangling_state (collidable dangling_state)) 11 = dangling_state \<and>
   portal_system_entity dangling_state
     (get_augmented_trail dangling_state (collidable dangling_state)) 1 = dangling_state"
proof -
  have a: "map_of (portal dangling_state) 10 = Some (Portal 99) \<and>
      map_of (position dangling_state) (pair_entity (Portal 99)) = None"
    by (simp add: example_defs)
  have b: "map_of (portal dangling_state) 11 = None" by (simp add: example_defs)
  have c: "map_of (portal dangling_state) 1 = None" by (simp add: example_defs)
  from a portal_inert[where s=dangling_state and pid=10]
  have "portal_system_entity dangling_state
     (get_augmented_trail dangling_state (collidable dangling_state)) 10 = dangling_state"
    by blast
  moreover from b portal_inert[where s=dangling_state and pid=11]
  have "portal_system_entity dangling_state
     (get_augmented_trail dangling_state (collidable dangling_state)) 11 = dangling_state"
    by blast
  moreover from c portal_inert[where s=dangling_state and pid=1]
  have "portal_system_entity dangling_state
     (get_augmented_trail dangling_state (collidable dangling_state)) 1 = dangling_state"
    by blast
  ultimately show ?thesis by blast
qed

section \<open>Claims about level authoring\<close>

text \<open>
  Claim C8 (agent-presence validation). For a level that \<open>_build_level_from_tokens\<close>
  returns, \<open>_make_env\<close> raises \<open>ValueError\<close> when no object of the level holds the
  \<open>Agent\<close> component, and otherwise returns an environment whose initial state is the
  converted level: the failure is a result of construction, before any environment
  exists to be stepped. When the token grid covers the configured width and height the
  level is always built and \<open>ValueError\<close> is the only error construction can end in.
\<close>

theorem agent_presence_validation:
  "(\<forall>lvl. build_level_from_tokens fs editor_portal_pairs cfg = Inr lvl \<longrightarrow>
      (if \<exists>(c, spec) \<in> set (objects lvl). has_component fs ''agent'' spec
       then \<exists>env. make_env fs editor_portal_pairs cfg = Inr env \<and>
              env_initial_state env = to_state fs lvl
       else make_env fs editor_portal_pairs cfg = Inl ValueError)) \<and>
   (grid_fits cfg \<longrightarrow>
      (\<exists>lvl. build_level_from_tokens fs editor_portal_pairs cfg = Inr lvl) \<and>
      (\<forall>err. make_env fs editor_portal_pairs cfg = Inl err \<longrightarrow> err = ValueError))"
proof -
  have a: "(if \<exists>(c, spec) \<in> set (objects lvl). has_component fs ''agent'' spec
       then \<exists>env. make_env fs editor_portal_pairs cfg = Inr env \<and>
              env_initial_state env = to_state fs lvl
       else make_env fs editor_portal_pairs cfg = Inl ValueError)"
    if "build_level_from_tokens fs editor_portal_pairs cfg = Inr lvl" for lvl
    using that agent_store_empty[of fs lvl]
    by (simp add: make_env_def initial_state_fn_def)
  have b: "(\<exists>lvl. build_level_from_tokens fs editor_portal_pairs cfg = Inr lvl) \<and>
      (\<forall>err. make_env fs editor_portal_pairs cfg = Inl err \<longrightarrow> err = ValueError)"
    if fits: "grid_fits cfg"
  proof -
    from fits build_cells_fits[of "grid_cells (cfg_width cfg) (cfg_height cfg)"
        "cfg_grid_tokens cfg" fs "([], [])"]
    obtain bs where "build_cells fs (cfg_grid_tokens cfg)
        (grid_cells (cfg_width cfg) (cfg_height cfg)) ([], []) = Inr bs"
      by (auto simp: grid_fits_def)
    then obtain lvl where lvl: "build_level_from_tokens fs editor_portal_pairs cfg = Inr lvl"
      by (cases bs) (simp add: build_level_from_tokens_def Let_def)
    then have "\<forall>err. make_env fs editor_portal_pairs cfg = Inl err \<longrightarrow> err = ValueError"
      by (auto simp: make_env_def initial_state_fn_def split: if_splits)
    with lvl show ?thesis by blast
  qed
  from a b show ?thesis by blast
qed

text \<open>
  Witness for C8: the grid without an agent is refused with \<open>ValueError\<close>; the grid
  with an agent yields an environment.
\<close>

theorem agent_presence_validation_witness:
  "grid_fits no_agent_cfg \<and>
   make_env plain_factories None no_agent_cfg = Inl ValueError \<and>
   (\<exists>env. make_env plain_factories None portal_cfg = Inr env \<and>
      env_initial_state env = authored_state)"
proof -
  have fits: "grid_fits no_agent_cfg"
    by (simp add: grid_fits_def grid_cells_def no_agent_cfg_fields)
      (simp add: no_agent_cfg_def portal_cfg_def)
  have none: "\<not> (\<exists>(c, spec) \<in> set (objects no_agent_level).
      has_component plain_factories ''agent'' spec)"
    by (simp add: no_agent_level_def no_agent_objs_def plain_factories_def)
  have some: "\<exists>(c, spec) \<in> set (objects portal_level).
      has_component plain_factories ''agent'' spec"
    by (simp add: portal_level_def portal_objs_def plain_factories_def)
  from agent_presence_validation[of plain_factories None no_agent_cfg]
    no_agent_level_built none
  have a: "make_env plain_factories None no_agent_cfg = Inl ValueError"
    by (simp split: if_splits)
  from agent_presence_validation[of plain_factories None portal_cfg]
    portal_level_built_fallback some
  have "\<exists>env. make_env plain_factories None portal_cfg = Inr env \<and>
      env_initial_state env = to_state plain_factories portal_level"
    by (simp split: if_splits)
  with a fits show ?thesis by (simp add: to_state_portal_level)
qed

text \<open>
  Claim C9 (portal pairing symmetry). The pairs stored in the session are either absent
  or those \<open>_pair_portals\<close> computed from some working grid. For every level built
  from tokens, in the state \<open>to_state\<close> makes of it: if portal \<open>a\<close> is paired with
  \<open>b\<close> then \<open>b\<close> is paired with \<open>a\<close>, and \<open>b\<close> has a position. In every state that
  carries this portal store, an entity entering \<open>a\<close> lands on the position of \<open>b\<close>
  and an entity entering \<open>b\<close> lands on the position of \<open>a\<close>.
\<close>

theorem portal_pairing_symmetric:
  assumes "editor_portal_pairs = None \<or>
      (\<exists>grid. editor_portal_pairs = Some (pair_portals grid))"
    and "build_level_from_tokens fs editor_portal_pairs cfg = Inr lvl"
  shows "(\<forall>a b. map_of (portal (to_state fs lvl)) a = Some (Portal b) \<longrightarrow>
            map_of (portal (to_state fs lvl)) b = Some (Portal a) \<and>
            map_of (position (to_state fs lvl)) b \<noteq> None) \<and>
         (\<forall>(s :: state) a b pa pb t es e.
            portal s = portal (to_state fs lvl) \<and>
            map_of (portal s) a = Some (Portal b) \<and>
            map_of (position s) a = Some pa \<and> map_of (position s) b = Some pb \<and>
            e \<in> set (collidable s) \<and> e \<in> set es \<and>
            map_of (prev_position s) e \<noteq> map_of (position s) e \<longrightarrow>
            (t pa = Some es \<longrightarrow>
               map_of (position (portal_system_entity s t a)) e = Some pb) \<and>
            (t pb = Some es \<longrightarrow>
               map_of (position (portal_system_entity s t b)) e = Some pa))"
proof -
  from build_level_refs[OF assms]
  have symr: "sym_refs (portal_pair_ref lvl)"
    and rng: "\<forall>i j. portal_pair_ref lvl i = Some j \<longrightarrow>
       i < length (objects lvl) \<and> j < length (objects lvl)"
    by blast+
  have first: "map_of (portal (to_state fs lvl)) b = Some (Portal a) \<and>
      map_of (position (to_state fs lvl)) b \<noteq> None"
    if h: "map_of (portal (to_state fs lvl)) a = Some (Portal b)" for a b
  proof -
    from h have a: "0 \<le> a" "a < int (length (objects lvl))"
      by (auto simp: portal_to_state split: if_splits)
    with h obtain j where j: "portal_pair_ref lvl (nat a) = Some j" "b = int j"
      by (auto simp: portal_to_state)
    with symr have rev_ref: "portal_pair_ref lvl j = Some (nat a)"
      unfolding sym_refs_def by blast
    from rng j have jl: "j < length (objects lvl)" by blast
    then have "0 \<le> int j \<and> int j < int (length (objects lvl))" by simp
    then have pos: "map_of (position (to_state fs lvl)) (int j) \<noteq> None"
      by (simp only: position_to_state)
    from rev_ref j a jl have "map_of (portal (to_state fs lvl)) b = Some (Portal a)"
      by (simp add: portal_to_state)
    with pos j show ?thesis by blast
  qed
  have second: "(t pa = Some es \<longrightarrow>
               map_of (position (portal_system_entity s t a)) e = Some pb) \<and>
            (t pb = Some es \<longrightarrow>
               map_of (position (portal_system_entity s t b)) e = Some pa)"
    if h: "portal s = portal (to_state fs lvl) \<and>
            map_of (portal s) a = Some (Portal b) \<and>
            map_of (position s) a = Some pa \<and> map_of (position s) b = Some pb \<and>
            e \<in> set (collidable s) \<and> e \<in> set es \<and>
            map_of (prev_position s) e \<noteq> map_of (position s) e"
    for s :: state and a b pa pb t es e
  proof -
    from h have h1: "portal s = portal (to_state fs lvl)"
      and h2: "map_of (portal s) a = Some (Portal b)"
      and h3: "map_of (position s) a = Some pa"
      and h4: "map_of (position s) b = Some pb"
      and h5: "e \<in> set (collidable s)"
      and h6: "e \<in> set es"
      and h7: "map_of (prev_position s) e \<noteq> map_of (position s) e"
      by blast+
    from h2 have "map_of (portal (to_state fs lvl)) a = Some (Portal b)"
      by (simp only: h1)
    from first[OF this] have "map_of (portal (to_state fs lvl)) b = Some (Portal a)"
      by blast
    then have rev_ref: "map_of (portal s) b = Some (Portal a)"
      by (simp only: h1)
    from h4 have pb: "map_of (position s) (pair_entity (Portal b)) = Some pb" by simp
    from h3 have pa: "map_of (position s) (pair_entity (Portal a)) = Some pa" by simp
    have "map_of (position (portal_system_entity s t a)) e = Some pb" if "t pa = Some es"
      by (rule teleport_lands[where t=t, OF h3 h2 pb that h6 h5 h7])
    moreover
    have "map_of (position (portal_system_entity s t b)) e = Some pa" if "t pb = Some es"
      by (rule teleport_lands[where t=t, OF h4 rev_ref pa that h6 h5 h7])
    ultimately show ?thesis by blast
  qed
  from first second show ?thesis by blast
qed

text \<open>
  Witness for C9: the two portals of \<open>portal_cfg\<close> are paired with each other, and
  the agent that steps onto the portal on (0,0) lands on (2,0), where the other portal
  stands.
\<close>

theorem portal_pairing_symmetric_witness:
  "build_level_from_tokens plain_factories (Some (pair_portals (cfg_grid_tokens portal_cfg)))
     portal_cfg = Inr portal_level \<and>
   to_state plain_factories portal_level = authored_state \<and>
   map_of (portal authored_state) 1 = Some (Portal 5) \<and>
   map_of (portal authored_state) 5 = Some (Portal 1) \<and>
   map_of (position entered_state) 5 = Some (Position 2 0) \<and>
   map_of (position (portal_system_entity entered_state
      (get_augmented_trail entered_state (collidable entered_state)) 1)) 3 = Some (Position 2 0)"
proof -
  have pp: "Some (pair_portals (cfg_grid_tokens portal_cfg)) = None \<or>
      (\<exists>grid. Some (pair_portals (cfg_grid_tokens portal_cfg)) = Some (pair_portals grid))"
    by blast
  note paired = portal_pairing_symmetric[OF pp portal_level_built]
  have p15: "map_of (portal (to_state plain_factories portal_level)) 1 = Some (Portal 5)"
    by (simp add: to_state_portal_level authored_state_def)
  with paired have "map_of (portal (to_state plain_factories portal_level)) 5 = Some (Portal 1)"
    by blast
  then have p51: "map_of (portal authored_state) 5 = Some (Portal 1)"
    by (simp only: to_state_portal_level)
  have c: "portal entered_state = portal (to_state plain_factories portal_level) \<and>
      map_of (portal entered_state) 1 = Some (Portal 5) \<and>
      map_of (position entered_state) 1 = Some (Position 0 0) \<and>
      map_of (position entered_state) 5 = Some (Position 2 0) \<and>
      3 \<in> set (collidable entered_state) \<and> 3 \<in> set [3::int] \<and>
      map_of (prev_position entered_state) 3 \<noteq> map_of (position entered_state) 3"
    by (simp add: to_state_portal_level entered_state_def authored_state_def)
  have t: "get_augmented_trail entered_state (collidable entered_state) (Position 0 0) = Some [3]"
    by (simp add: get_augmented_trail_def entered_state_def authored_state_def)
  from paired c t
  have "map_of (position (portal_system_entity entered_state
      (get_augmented_trail entered_state (collidable entered_state)) 1)) 3 = Some (Position 2 0)"
    by blast
  moreover from p15 have "map_of (portal authored_state) 1 = Some (Portal 5)"
    by (simp only: to_state_portal_level)
  moreover from c have "map_of (position entered_state) 5 = Some (Position 2 0)" by blast
  ultimately show ?thesis
    using portal_level_built to_state_portal_level p51 by blast
qed

section \<open>Frame condition\<close>

text \<open>
  Claim C10 (position-only frame condition). Whatever state \<open>push_system\<close> returns
  equals its input with at most the position store replaced, and it does return a
  state whenever the wrap modulus is defined; \<open>portal_system\<close> likewise returns its
  input with at most the position store replaced. Width, height, the rules and every
  other store, the trail and the record's extension included, are those of the input.
\<close>

theorem position_only_frame:
  "(\<forall>s'. push_system s eid np = Inr s' \<longrightarrow> s' = s\<lparr>position := position s'\<rparr>) \<and>
   (move_fn s \<noteq> wrap_around_move_fn \<or> (width s \<noteq> 0 \<and> height s \<noteq> 0) \<longrightarrow>
      (\<exists>s'. push_system s eid np = Inr s')) \<and>
   portal_system s = s\<lparr>position := position (portal_system s)\<rparr>"
  using push_system_frame[of s eid np] push_system_returns[of s eid np]
    portal_loop_frame[of "get_augmented_trail s (collidable s)" "map fst (portal s)" s]
  by (simp add: portal_system_def)

text \<open>Witness for C10, on the box scenario and on the portal scenario.\<close>

theorem position_only_frame_witness:
  "(\<exists>s'. push_system box_state 1 (Position 1 0) = Inr s' \<and>
      s' = box_state\<lparr>position := position s'\<rparr>) \<and>
   portal_system portal_state = portal_state\<lparr>position := position (portal_system portal_state)\<rparr> \<and>
   map_of (position (portal_system portal_state)) 1 = Some (Position 4 4)"
proof -
  note f = position_only_frame[of box_state 1 "Position 1 0"]
  from f have "\<exists>s'. push_system box_state 1 (Position 1 0) = Inr s'"
    by (simp add: example_defs)
  then obtain s' where s': "push_system box_state 1 (Position 1 0) = Inr s'" by blast
  with f have "s' = box_state\<lparr>position := position s'\<rparr>" by blast
  moreover have "map_of (position (portal_system portal_state)) 1 = Some (Position 4 4)"
    by (simp add: portal_system_def portal_system_entity_def entering_entity_ids_def
        example_defs eval_defs)
  ultimately show ?thesis
    using s' position_only_frame[of portal_state] by blast
qed

end
